theory Spec2Isabelle
  imports Main
begin

section \<open>Python values, exceptions and the world the program acts on\<close>

text \<open>
  The program \<^verbatim>\<open>ripper.py\<close> is a small class hierarchy: \<^verbatim>\<open>GenericRipper\<close> forwards
  \<^verbatim>\<open>fetch\<close>, \<^verbatim>\<open>descend\<close> and \<^verbatim>\<open>ascend\<close> to its parent, and \<^verbatim>\<open>Controller\<close> carries them
  out on the HTTP session, the directory tree and the process's current directory.
  Every method is modelled as a function from the world before the call to an outcome
  (an exception or a return value) and the world after it.
\<close>

text \<open>
  Exceptions. \<^verbatim>\<open>AttributeError\<close> is what Python raises for an attribute of \<^verbatim>\<open>None\<close>
  (\<^verbatim>\<open>self._parent.fetch\<close>, \<^verbatim>\<open>self._log.debug\<close>, \<^verbatim>\<open>self._session.get\<close>),
  \<^verbatim>\<open>UnboundLocalError\<close> for the unassigned \<^verbatim>\<open>level\<close> of \<^verbatim>\<open>__init_log\<close>, \<^verbatim>\<open>SystemExit\<close> for
  \<^verbatim>\<open>exit(1)\<close>, \<^verbatim>\<open>ValueError\<close> for what \<^verbatim>\<open>json.load\<close> raises on a text it does not accept
  and for what the calls of the \<^verbatim>\<open>os\<close> module raise on a name with a NUL byte.
  \<^verbatim>\<open>FileExistsError\<close>, \<^verbatim>\<open>FileNotFoundError\<close>, \<^verbatim>\<open>NotADirectoryError\<close>, \<^verbatim>\<open>IsADirectoryError\<close>
  and \<^verbatim>\<open>PermissionError\<close> are subclasses of \<^verbatim>\<open>OSError\<close>; \<open>OSError\<close> with the name of an
  error number is an \<^verbatim>\<open>OSError\<close> that has no subclass of its own (\<^verbatim>\<open>ENAMETOOLONG\<close>,
  \<^verbatim>\<open>ELOOP\<close>, \<^verbatim>\<open>EROFS\<close>, \<^verbatim>\<open>ENOSPC\<close>). \<^verbatim>\<open>External\<close> is an exception of the HTTP client or of
  the HTML parser. \<^verbatim>\<open>ConfigurationError\<close> and \<^verbatim>\<open>ConfigError\<close> are the error classes the
  specification names; the source defines and raises no such class, and no function below
  returns either.
\<close>

datatype exn =
    AttributeError
  | UnboundLocalError
  | FileExistsError
  | FileNotFoundError
  | NotADirectoryError
  | IsADirectoryError
  | PermissionError
  | OSError string
  | ValueError
  | SystemExit int
  | External string
  | ConfigurationError
  | ConfigError

fun is_OSError :: "exn \<Rightarrow> bool" where
  "is_OSError FileExistsError = True"
| "is_OSError FileNotFoundError = True"
| "is_OSError NotADirectoryError = True"
| "is_OSError IsADirectoryError = True"
| "is_OSError PermissionError = True"
| "is_OSError (OSError _) = True"
| "is_OSError _ = False"

text \<open>What \<^verbatim>\<open>json.load\<close> returns; \<open>JNull\<close> is Python's \<^verbatim>\<open>None\<close>.\<close>

datatype json =
    JNull
  | JBool bool
  | JInt int
  | JFloat string
  | JStr string
  | JArr "json list"
  | JObj "(string \<times> json) list"

text \<open>The response object of \<^verbatim>\<open>requests\<close>: status code, headers and body.\<close>

record response =
  status_code :: int
  headers :: "(string \<times> string) list"
  content :: string

text \<open>
  The values the three operations return: \<^verbatim>\<open>None\<close>, a boolean, the response object or
  the tree \<^verbatim>\<open>html.fromstring\<close> built.
\<close>

datatype 't pyval = PyNone | PyBool bool | Page response | Tree 't

subsection \<open>The directory tree\<close>

text \<open>
  A path is the list of its components from the root, each a string of bytes (the name
  as the file system stores it); the tree maps a path to what is there: a directory, a
  regular file with its text, or a symbolic link with its target. A name the program
  passes to the \<^verbatim>\<open>os\<close> module is likewise the string of bytes Python encodes it to, so
  that lengths are counted in bytes. The model has one process: nothing but the program
  changes the tree.
\<close>

type_synonym path = "string list"

datatype entry = Dir | File string | Link string

text \<open>
  What the process asks of the system at a path: to look a name up in a directory or
  make it the current one (\<open>Search\<close>), to create an entry in a directory (\<open>Write\<close>), to
  read a file (\<open>Read\<close>).
\<close>

datatype access = Search | Write | Read

datatype log_arg = Str string | Exc exn | Json json

type_synonym log_record = "int \<times> string \<times> string \<times> log_arg list"

text \<open>
  The world: the directory tree; the current directory (the "cursor"), always a path
  without symbolic links, as the kernel keeps it; what the system refuses the process
  (\<open>refusal w a p\<close> is the error of an access \<open>a\<close> at \<open>p\<close> that the system does not grant:
  \<^verbatim>\<open>PermissionError\<close> for missing permission bits, an \<^verbatim>\<open>OSError\<close> for a read-only or a
  full file system; for a path where nothing exists yet it speaks of the directory that
  \<^verbatim>\<open>os.mkdir\<close> would create there, whose permission bits the umask fixes); the records the
  logging module has written (level, logger name, format string, arguments); the number
  of HTTP sessions created so far; and the state of the network and of the session's
  cookies, opaque.
\<close>

record 'n world =
  fs :: "path \<Rightarrow> entry option"
  cwd :: path
  refusal :: "access \<Rightarrow> path \<Rightarrow> exn option"
  log_out :: "log_record list"
  sessions :: nat
  net :: 'n

type_synonym ('a, 'n) action = "'n world \<Rightarrow> (exn + 'a) \<times> 'n world"

definition return :: "'a \<Rightarrow> ('a, 'n) action" where
  "return a w = (Inr a, w)"

definition raise :: "exn \<Rightarrow> ('a, 'n) action" where
  "raise e w = (Inl e, w)"

text \<open>Sequencing: an exception of the first statement ends the method.\<close>

definition bind :: "('a, 'n) action \<Rightarrow> ('a \<Rightarrow> ('b, 'n) action) \<Rightarrow> ('b, 'n) action" where
  "bind m k w = (case m w of (Inl e, w') \<Rightarrow> (Inl e, w') | (Inr a, w') \<Rightarrow> k a w')"

subsection \<open>Path lookup\<close>

fun split_on :: "char \<Rightarrow> string \<Rightarrow> string list" where
  "split_on c [] = [[]]"
| "split_on c (x # xs) =
     (if x = c then [] # split_on c xs
      else (case split_on c xs of [] \<Rightarrow> [[x]] | h # t \<Rightarrow> (x # h) # t))"

definition components :: "string \<Rightarrow> string list" where
  "components name = split_on (CHR ''/'') name"

text \<open>
  A relative path starts at the current directory (the target of a symbolic link: at the
  directory that holds the link), an absolute one at the root.
\<close>

definition origin :: "path \<Rightarrow> string \<Rightarrow> path" where
  "origin cur name = (case name of [] \<Rightarrow> cur | x # _ \<Rightarrow> (if x = CHR ''/'' then [] else cur))"

definition start :: "'n world \<Rightarrow> string \<Rightarrow> path" where
  "start w name = origin (cwd w) name"

text \<open>The limits of Linux: bytes in a component, bytes in a path, links followed in one lookup.\<close>

definition NAME_MAX :: nat where "NAME_MAX = 255"
definition PATH_MAX :: nat where "PATH_MAX = 4096"
definition MAXSYMLINKS :: nat where "MAXSYMLINKS = 40"

text \<open>
  One step per component, as the kernel walks a path. The directory walked from must
  exist and be a directory. An empty component (two slashes in a row, a trailing slash)
  stays. For any other component the directory must grant the search; \<^verbatim>\<open>.\<close> stays,
  \<^verbatim>\<open>..\<close> goes to the parent (the root is its own parent), a name of more than
  \<open>NAME_MAX\<close> bytes is refused, a name that is a symbolic link is replaced by the link's
  target (at most \<open>MAXSYMLINKS\<close> times, the second argument counting down), and any other
  name is stepped into. The result is the path reached, free of links, with the number
  of links that may still be followed.
\<close>

fun walk :: "(path \<Rightarrow> entry option) \<Rightarrow> (access \<Rightarrow> path \<Rightarrow> exn option) \<Rightarrow> nat \<Rightarrow> path
               \<Rightarrow> string list \<Rightarrow> exn + (nat \<times> path)" where
  "walk f r b cur [] = Inr (b, cur)"
| "walk f r b cur (c # cs) =
     (case f cur of
        None \<Rightarrow> Inl FileNotFoundError
      | Some (File _) \<Rightarrow> Inl NotADirectoryError
      | Some (Link _) \<Rightarrow> Inl NotADirectoryError
      | Some Dir \<Rightarrow>
          (if c = [] then walk f r b cur cs
           else (case r Search cur of
                   Some e \<Rightarrow> Inl e
                 | None \<Rightarrow>
                    (if c = ''.'' then walk f r b cur cs
                     else if c = ''..'' then walk f r b (butlast cur) cs
                     else if NAME_MAX < length c then Inl (OSError ''ENAMETOOLONG'')
                     else (case f (cur @ [c]) of
                             Some (Link t) \<Rightarrow>
                               (if b = 0 then Inl (OSError ''ELOOP'')
                                else if t = [] then Inl FileNotFoundError
                                else walk f r (b - 1) (origin cur t) (components t @ cs))
                           | Some Dir \<Rightarrow> walk f r b (cur @ [c]) cs
                           | Some (File _) \<Rightarrow> walk f r b (cur @ [c]) cs
                           | None \<Rightarrow> walk f r b (cur @ [c]) cs)))))"

text \<open>
  What every call does with the name it is given: a name with a NUL byte never reaches
  the system (Python raises \<^verbatim>\<open>ValueError\<close>), the empty name leads nowhere, a name of
  \<open>PATH_MAX\<close> bytes or more is refused.
\<close>

definition check_name :: "string \<Rightarrow> exn option" where
  "check_name name =
     (if CHR 0x00 \<in> set name then Some ValueError
      else if name = [] then Some FileNotFoundError
      else if PATH_MAX \<le> length name then Some (OSError ''ENAMETOOLONG'')
      else None)"

text \<open>Where a name leads, every symbolic link followed, and what is there.\<close>

definition stat :: "'n world \<Rightarrow> string \<Rightarrow> exn + (path \<times> entry)" where
  "stat w name =
     (case check_name name of
        Some e \<Rightarrow> Inl e
      | None \<Rightarrow>
         (case walk (fs w) (refusal w) MAXSYMLINKS (start w name) (components name) of
            Inl e \<Rightarrow> Inl e
          | Inr (b, p) \<Rightarrow>
             (case fs w p of None \<Rightarrow> Inl FileNotFoundError | Some e \<Rightarrow> Inr (p, e))))"

subsection \<open>The calls of the \<^verbatim>\<open>os\<close> module the program makes\<close>

text \<open>\<^verbatim>\<open>os.path.isdir\<close>: true when the path leads to a directory, false on every error.\<close>

definition os_path_isdir :: "string \<Rightarrow> (bool, 'n) action" where
  "os_path_isdir name w =
     (case stat w name of Inr (p, Dir) \<Rightarrow> (Inr True, w) | _ \<Rightarrow> (Inr False, w))"

text \<open>
  \<^verbatim>\<open>os.chdir\<close>: the path must lead to a directory that grants the search; that
  directory, free of links, becomes the current one.
\<close>

definition os_chdir :: "string \<Rightarrow> (unit, 'n) action" where
  "os_chdir name w =
     (case stat w name of
        Inl e \<Rightarrow> (Inl e, w)
      | Inr (p, File _) \<Rightarrow> (Inl NotADirectoryError, w)
      | Inr (p, Link _) \<Rightarrow> (Inl NotADirectoryError, w)
      | Inr (p, Dir) \<Rightarrow>
          (case refusal w Search p of
             Some e \<Rightarrow> (Inl e, w)
           | None \<Rightarrow> (Inr (), w\<lparr>cwd := p\<rparr>)))"

text \<open>
  \<^verbatim>\<open>os.mkdir\<close>. \<open>mkdir_place\<close> is the path of the directory the call is to create, when
  every check of the call passes: trailing slashes are dropped; the path up to the last
  component must lead (links followed) to a directory that grants the search; the last
  component is not followed: the call fails with \<^verbatim>\<open>FileExistsError\<close> when anything (a
  directory, a file, a link) has that name, and the directory must grant the write.
  The call then creates an empty directory there.
\<close>

definition strip_trailing :: "string list \<Rightarrow> string list" where
  "strip_trailing cs = rev (dropWhile (\<lambda>c. c = []) (rev cs))"

definition mkdir_place :: "'n world \<Rightarrow> string \<Rightarrow> exn + path" where
  "mkdir_place w name =
     (case check_name name of
        Some e \<Rightarrow> Inl e
      | None \<Rightarrow>
         (case strip_trailing (components name) of
            [] \<Rightarrow> Inl FileExistsError
          | c # cs \<Rightarrow>
             (case walk (fs w) (refusal w) MAXSYMLINKS (start w name) (butlast (c # cs)) of
                Inl e \<Rightarrow> Inl e
              | Inr (b, q) \<Rightarrow>
                 (case fs w q of
                    None \<Rightarrow> Inl FileNotFoundError
                  | Some (File _) \<Rightarrow> Inl NotADirectoryError
                  | Some (Link _) \<Rightarrow> Inl NotADirectoryError
                  | Some Dir \<Rightarrow>
                     (case refusal w Search q of
                        Some e \<Rightarrow> Inl e
                      | None \<Rightarrow>
                         (if last (c # cs) = ''.'' then Inl FileExistsError
                          else if last (c # cs) = ''..'' then Inl FileExistsError
                          else if NAME_MAX < length (last (c # cs))
                            then Inl (OSError ''ENAMETOOLONG'')
                          else (case fs w (q @ [last (c # cs)]) of
                                  Some _ \<Rightarrow> Inl FileExistsError
                                | None \<Rightarrow>
                                   (case refusal w Write q of
                                      Some e \<Rightarrow> Inl e
                                    | None \<Rightarrow> Inr (q @ [last (c # cs)])))))))))"

definition os_mkdir :: "string \<Rightarrow> (unit, 'n) action" where
  "os_mkdir name w =
     (case mkdir_place w name of
        Inl e \<Rightarrow> (Inl e, w)
      | Inr p \<Rightarrow> (Inr (), w\<lparr>fs := (fs w)(p := Some Dir)\<rparr>))"

subsection \<open>Logging\<close>

text \<open>The levels of Python's \<^verbatim>\<open>logging\<close> module.\<close>

definition CRITICAL :: int where "CRITICAL = 50"
definition ERROR :: int where "ERROR = 40"
definition WARNING :: int where "WARNING = 30"
definition INFO :: int where "INFO = 20"
definition DEBUG :: int where "DEBUG = 10"

text \<open>
  A logger: its name, the level \<^verbatim>\<open>logging.basicConfig\<close> was given and the file it writes
  to (\<^verbatim>\<open>None\<close>: the standard stream). A call at level \<open>lvl\<close> writes its record when
  \<open>lvl\<close> is at least the logger's level, and nothing otherwise.
\<close>

record logger =
  lg_name :: string
  lg_level :: int
  lg_file :: "string option"

definition emit :: "logger \<Rightarrow> int \<Rightarrow> string \<Rightarrow> log_arg list \<Rightarrow> 'n world \<Rightarrow> 'n world" where
  "emit lg lvl m as w =
     (if lg_level lg \<le> lvl then w\<lparr>log_out := log_out w @ [(lvl, lg_name lg, m, as)]\<rparr> else w)"

text \<open>\<^verbatim>\<open>self._log.debug(...)\<close> and its siblings; \<^verbatim>\<open>self._log\<close> is \<^verbatim>\<open>None\<close> before \<^verbatim>\<open>init\<close>.\<close>

definition log_call :: "logger option \<Rightarrow> int \<Rightarrow> string \<Rightarrow> log_arg list \<Rightarrow> (unit, 'n) action" where
  "log_call l lvl m as w =
     (case l of None \<Rightarrow> (Inl AttributeError, w) | Some lg \<Rightarrow> (Inr (), emit lg lvl m as w))"

section \<open>The classes\<close>

text \<open>The argument object \<^verbatim>\<open>argparse\<close> builds.\<close>

record arguments =
  arg_config :: string
  arg_dryrun :: bool
  arg_logfile :: "string option"
  arg_loglevel :: int

text \<open>
  The fields of a \<^verbatim>\<open>Controller\<close>: \<^verbatim>\<open>name\<close>, \<^verbatim>\<open>_args\<close>, \<^verbatim>\<open>_dryrun\<close>, \<^verbatim>\<open>_log\<close>,
  \<^verbatim>\<open>_config\<close> and \<^verbatim>\<open>_session\<close> (a session is known by its number).
\<close>

record controller =
  self_name :: string
  self_args :: arguments
  self_dryrun :: bool
  self_log :: "logger option"
  self_config :: json
  self_session :: "nat option"


definition is_dryrun :: "controller \<Rightarrow> bool" where
  "is_dryrun c = self_dryrun c"

definition log_declare_entry :: "controller \<Rightarrow> string \<Rightarrow> (unit, 'n) action" where
  "log_declare_entry c func = log_call (self_log c) DEBUG ''Entering %s'' [Str func]"

definition log_declare_return :: "controller \<Rightarrow> string \<Rightarrow> (unit, 'n) action" where
  "log_declare_return c func = log_call (self_log c) DEBUG ''%s returning'' [Str func]"

subsection \<open>\<^verbatim>\<open>Controller.descend\<close> and \<^verbatim>\<open>Controller.ascend\<close>\<close>

text \<open>Lines 242 to 245, which both branches that descend end with.\<close>

definition descend_into :: "controller \<Rightarrow> string \<Rightarrow> ('t pyval, 'n) action" where
  "descend_into c name =
     bind (log_call (self_log c) DEBUG ''Descending into %s'' [Str name]) (\<lambda>_.
     bind (os_chdir name) (\<lambda>_.
     bind (log_declare_return c ''descend'') (\<lambda>_.
     return (PyBool True))))"

definition Controller_descend :: "controller \<Rightarrow> string \<Rightarrow> bool \<Rightarrow> ('t pyval, 'n) action" where
  "Controller_descend c name ignore_exists =
     bind (log_declare_entry c ''descend'') (\<lambda>_.
     if is_dryrun c then
       bind (log_call (self_log c) DEBUG ''Dry run. Taking no action.'' []) (\<lambda>_.
       bind (log_declare_return c ''descend'') (\<lambda>_.
       return (PyBool True)))
     else
       bind (os_path_isdir name) (\<lambda>d.
       if \<not> d then
         bind (log_call (self_log c) DEBUG ''Creating %s'' [Str name]) (\<lambda>_.
         bind (os_mkdir name) (\<lambda>_.
         descend_into c name))
       else if \<not> ignore_exists then
         bind (log_call (self_log c) WARNING ''Directory %s exists. Skipping'' [Str name]) (\<lambda>_.
         bind (log_declare_return c ''descend'') (\<lambda>_.
         return (PyBool False)))
       else descend_into c name))"

definition Controller_ascend :: "controller \<Rightarrow> ('t pyval, 'n) action" where
  "Controller_ascend c =
     bind (log_declare_entry c ''ascend'') (\<lambda>_.
     if is_dryrun c then
       bind (log_call (self_log c) DEBUG ''Dry run. Taking no action.'' []) (\<lambda>_.
       return PyNone)
     else
       bind (log_call (self_log c) DEBUG ''Ascending from directory'' []) (\<lambda>_.
       bind (os_chdir ''..'') (\<lambda>_.
       return PyNone)))"

subsection \<open>\<^verbatim>\<open>Controller.fetch\<close>\<close>

text \<open>
  The libraries the program calls are parameters: \<open>http_get\<close> is \<^verbatim>\<open>Session.get\<close>, which
  returns the response whatever its status code and raises only when the exchange itself
  fails; \<open>fromstring\<close> is \<^verbatim>\<open>lxml.html.fromstring\<close>; \<open>json_load\<close> is \<^verbatim>\<open>json.load\<close> on the
  text of the file.
\<close>

record ('n, 't) env =
  http_get :: "string \<Rightarrow> 'n \<Rightarrow> (exn + response) \<times> 'n"
  fromstring :: "string \<Rightarrow> exn + 't"
  json_load :: "string \<Rightarrow> exn + json"

text \<open>\<^verbatim>\<open>self._session.get(url)\<close>; \<^verbatim>\<open>self._session\<close> is \<^verbatim>\<open>None\<close> before \<^verbatim>\<open>init\<close>.\<close>

definition session_get :: "('n, 't) env \<Rightarrow> nat option \<Rightarrow> string \<Rightarrow> (response, 'n) action" where
  "session_get env s url w =
     (case s of
        None \<Rightarrow> (Inl AttributeError, w)
      | Some _ \<Rightarrow> (case http_get env url (net w) of (r, n) \<Rightarrow> (r, w\<lparr>net := n\<rparr>)))"

definition html_fromstring :: "('n, 't) env \<Rightarrow> string \<Rightarrow> ('t, 'n) action" where
  "html_fromstring env s w = (fromstring env s, w)"

definition Controller_fetch ::
  "('n, 't) env \<Rightarrow> controller \<Rightarrow> string \<Rightarrow> bool \<Rightarrow> ('t pyval, 'n) action" where
  "Controller_fetch env c url tree =
     bind (log_declare_entry c ''fetch'') (\<lambda>_.
     bind (log_call (self_log c) INFO ''Fetching %s'' [Str url]) (\<lambda>_.
     bind (session_get env (self_session c) url) (\<lambda>page.
     bind (log_call (self_log c) DEBUG ''Got page'' []) (\<lambda>_.
     if tree then
       bind (html_fromstring env (content page)) (\<lambda>t.
       bind (log_declare_return c ''fetch'') (\<lambda>_.
       return (Tree t)))
     else
       bind (log_declare_return c ''fetch'') (\<lambda>_.
       return (Page page))))))"

subsection \<open>\<^verbatim>\<open>Controller.init\<close> and what it calls\<close>

text \<open>
  Lines 136 to 147 of \<^verbatim>\<open>__init_log\<close>: the chain assigns \<^verbatim>\<open>level\<close> for 0 to 5 only, so
  any other number leaves it unbound where \<^verbatim>\<open>basicConfig\<close> reads it.
\<close>

definition figure_out_loglevel :: "int \<Rightarrow> exn + int" where
  "figure_out_loglevel loglevel =
     (if loglevel = 0 then Inr 51
      else if loglevel = 1 then Inr CRITICAL
      else if loglevel = 2 then Inr ERROR
      else if loglevel = 3 then Inr WARNING
      else if loglevel = 4 then Inr INFO
      else if loglevel = 5 then Inr DEBUG
      else Inl UnboundLocalError)"

text \<open>
  \<^verbatim>\<open>Controller.__init_log\<close>. The log file is not part of the modelled directory tree and
  is taken to be writable: the records written are kept in \<open>log_out\<close>.
\<close>

definition Controller_init_log :: "int \<Rightarrow> string option \<Rightarrow> string \<Rightarrow> (logger, 'n) action" where
  "Controller_init_log loglevel logfile name =
     (case figure_out_loglevel loglevel of
        Inl e \<Rightarrow> raise e
      | Inr level \<Rightarrow>
          bind (return \<lparr>lg_name = name, lg_level = level, lg_file = logfile\<rparr>) (\<lambda>lg.
          bind (log_call (Some lg) INFO ''Starting log'' []) (\<lambda>_.
          bind (log_call (Some lg) DEBUG ''Developer spam sandwich is go!'' []) (\<lambda>_.
          return lg))))"

text \<open>
  \<^verbatim>\<open>open(conffile, 'r')\<close> and the read of the file: its text, or the error. The path
  must lead to a regular file that grants the read.
\<close>

definition py_open :: "string \<Rightarrow> (string, 'n) action" where
  "py_open name w =
     (case stat w name of
        Inl e \<Rightarrow> (Inl e, w)
      | Inr (p, Dir) \<Rightarrow> (Inl IsADirectoryError, w)
      | Inr (p, Link _) \<Rightarrow> (Inl FileNotFoundError, w)
      | Inr (p, File s) \<Rightarrow>
          (case refusal w Read p of
             Some e \<Rightarrow> (Inl e, w)
           | None \<Rightarrow> (Inr s, w)))"






subsection \<open>\<^verbatim>\<open>GenericRipper\<close> and the parent chain\<close>

text \<open>
  An object of the hierarchy is a \<^verbatim>\<open>Controller\<close> or a \<^verbatim>\<open>GenericRipper\<close> with its name and
  its \<^verbatim>\<open>_parent\<close>, which may be \<^verbatim>\<open>None\<close>. A method call on an object runs the method of
  the object's class: \<^verbatim>\<open>Controller\<close> overrides all three. The methods of
  \<^verbatim>\<open>GenericRipper\<close> call the parent's method and end without a \<^verbatim>\<open>return\<close> statement, so
  what they return is \<^verbatim>\<open>None\<close>.
\<close>

datatype ripper = Controller controller | GenericRipper string "ripper option"

fun fetch :: "('n, 't) env \<Rightarrow> ripper \<Rightarrow> string \<Rightarrow> bool \<Rightarrow> ('t pyval, 'n) action" where
  "fetch env (Controller c) url tree = Controller_fetch env c url tree"
| "fetch env (GenericRipper n None) url tree = raise AttributeError"
| "fetch env (GenericRipper n (Some p)) url tree =
     bind (fetch env p url tree) (\<lambda>_. return PyNone)"

fun descend :: "ripper \<Rightarrow> string \<Rightarrow> bool \<Rightarrow> ('t pyval, 'n) action" where
  "descend (Controller c) name ignore_exists = Controller_descend c name ignore_exists"
| "descend (GenericRipper n None) name ignore_exists = raise AttributeError"
| "descend (GenericRipper n (Some p)) name ignore_exists =
     bind (descend p name ignore_exists) (\<lambda>_. return PyNone)"

fun ascend :: "ripper \<Rightarrow> ('t pyval, 'n) action" where
  "ascend (Controller c) = Controller_ascend c"
| "ascend (GenericRipper n None) = raise AttributeError"
| "ascend (GenericRipper n (Some p)) = bind (ascend p) (\<lambda>_. return PyNone)"

section \<open>Names and a sample installation\<close>

text \<open>
  \<open>entry_name name n\<close>: the name is the single path component \<open>n\<close>, other than \<^verbatim>\<open>.\<close> and
  \<^verbatim>\<open>..\<close>, with or without trailing slashes (\<^verbatim>\<open>new\<close>, \<^verbatim>\<open>new/\<close>), so that it names the entry
  \<open>n\<close> of the current directory.
\<close>

definition entry_name :: "string \<Rightarrow> string \<Rightarrow> bool" where
  "entry_name name n =
     (strip_trailing (components name) = [n] \<and> n \<noteq> ''.'' \<and> n \<noteq> ''..'')"

fun is_link :: "entry option \<Rightarrow> bool" where
  "is_link (Some (Link _)) = True"
| "is_link _ = False"

text \<open>
  A small installation to run the program on: the directory \<^verbatim>\<open>/srv/rip\<close> with a
  directory \<^verbatim>\<open>done\<close>, a regular file \<^verbatim>\<open>notes\<close>, a symbolic link \<^verbatim>\<open>link\<close> to the directory
  \<^verbatim>\<open>/srv/elsewhere\<close>, and four configuration files: one holding the JSON object \<^verbatim>\<open>{}\<close>,
  one holding text that is not JSON, one holding the JSON document \<^verbatim>\<open>null\<close> and one
  holding \<^verbatim>\<open>NaN\<close>, which is not JSON but which \<^verbatim>\<open>json.load\<close> accepts; a system that
  refuses nothing; a server that answers every request with status 404; a controller as
  \<^verbatim>\<open>init\<close> leaves it at log level 5.
\<close>

definition example_tree :: "path \<Rightarrow> entry option" where
  "example_tree =
     [[] \<mapsto> Dir,
      [''srv''] \<mapsto> Dir,
      [''srv'', ''elsewhere''] \<mapsto> Dir,
      [''srv'', ''rip''] \<mapsto> Dir,
      [''srv'', ''rip'', ''done''] \<mapsto> Dir,
      [''srv'', ''rip'', ''link''] \<mapsto> Link ''../elsewhere'',
      [''srv'', ''rip'', ''notes''] \<mapsto> File ''to do'',
      [''srv'', ''rip'', ''conf.json''] \<mapsto> File ''{}'',
      [''srv'', ''rip'', ''broken.json''] \<mapsto> File ''not json'',
      [''srv'', ''rip'', ''null.json''] \<mapsto> File ''null'',
      [''srv'', ''rip'', ''nan.json''] \<mapsto> File ''NaN'']"

definition example_world :: "nat world" where
  "example_world =
     \<lparr>fs = example_tree, cwd = [''srv'', ''rip''], refusal = (\<lambda>a p. None), log_out = [],
      sessions = 0, net = 0\<rparr>"

definition example_page :: response where
  "example_page = \<lparr>status_code = 404, headers = [], content = ''<p>gone</p>''\<rparr>"

definition example_env :: "(nat, string) env" where
  "example_env =
     \<lparr>http_get = (\<lambda>url n. (Inr example_page, Suc n)),
      fromstring = (\<lambda>s. Inr s),
      json_load = (\<lambda>s. if s = ''{}'' then Inr (JObj [])
                       else if s = ''null'' then Inr JNull
                       else if s = ''NaN'' then Inr (JFloat ''nan'')
                       else Inl ValueError)\<rparr>"

definition example_args :: "bool \<Rightarrow> string \<Rightarrow> arguments" where
  "example_args dry conf =
     \<lparr>arg_config = conf, arg_dryrun = dry, arg_logfile = None, arg_loglevel = 5\<rparr>"

definition example_logger :: logger where
  "example_logger = \<lparr>lg_name = ''root'', lg_level = 10, lg_file = None\<rparr>"

definition example_controller :: "bool \<Rightarrow> controller" where
  "example_controller dry =
     \<lparr>self_name = ''root'', self_args = example_args dry ''conf.json'', self_dryrun = dry,
      self_log = Some example_logger, self_config = JObj [], self_session = Some 0\<rparr>"

section \<open>Properties\<close>

subsection \<open>Logging changes the log only\<close>

lemmas run_defs =
  Controller_descend_def Controller_ascend_def Controller_fetch_def descend_into_def
  is_dryrun_def log_declare_entry_def log_declare_return_def bind_def return_def raise_def
  log_call_def emit_def os_path_isdir_def os_chdir_def os_mkdir_def mkdir_place_def stat_def
  check_name_def start_def origin_def components_def strip_trailing_def entry_name_def
  NAME_MAX_def PATH_MAX_def MAXSYMLINKS_def session_get_def html_fromstring_def py_open_def
  example_world_def example_tree_def example_controller_def example_logger_def
  example_args_def example_env_def example_page_def
  DEBUG_def INFO_def WARNING_def ERROR_def CRITICAL_def

lemma fs_emit [simp]: "fs (emit lg lvl m as w) = fs w"
  and cwd_emit [simp]: "cwd (emit lg lvl m as w) = cwd w"
  and refusal_emit [simp]: "refusal (emit lg lvl m as w) = refusal w"
  and sessions_emit [simp]: "sessions (emit lg lvl m as w) = sessions w"
  and net_emit [simp]: "net (emit lg lvl m as w) = net w"
  by (simp_all add: emit_def)

lemma start_emit [simp]: "start (emit lg lvl m as w) name = start w name"
  by (simp add: start_def)

lemma stat_emit [simp]: "stat (emit lg lvl m as w) name = stat w name"
  by (simp add: stat_def cong: option.case_cong sum.case_cong prod.case_cong)

lemma mkdir_place_emit [simp]: "mkdir_place (emit lg lvl m as w) name = mkdir_place w name"
  by (simp add: mkdir_place_def
        cong: option.case_cong sum.case_cong prod.case_cong list.case_cong entry.case_cong if_cong)

lemma start_log_out [simp]: "start (w\<lparr>log_out := l\<rparr>) name = start w name"
  by (simp add: start_def)

lemma stat_log_out [simp]: "stat (w\<lparr>log_out := l\<rparr>) name = stat w name"
  by (simp add: stat_def cong: option.case_cong sum.case_cong prod.case_cong)

lemma log_call_Some [simp]: "log_call (Some lg) lvl m as w = (Inr (), emit lg lvl m as w)"
  by (simp add: log_call_def)

lemma bind_log [simp]:
  "bind (log_call (Some lg) lvl m as) k w = k () (emit lg lvl m as w)"
  by (simp add: bind_def)

lemma bind_return [simp]: "bind (return a) k w = k a w"
  by (simp add: bind_def return_def)

subsection \<open>Paths\<close>

lemma split_on_nonempty: "split_on c s \<noteq> []"
  by (induction s) (auto split: list.splits)

lemma walk_append:
  "walk f r b s (xs @ ys) =
     (case walk f r b s xs of Inl e \<Rightarrow> Inl e | Inr (b', q) \<Rightarrow> walk f r b' q ys)"
proof (induction f r b s xs rule: walk.induct)
  case (1 f r b cur)
  show ?case by simp
next
  case (2 f r b cur c cs)
  then show ?case
    by (auto split: option.splits entry.splits)
qed

lemma walk_update:
  assumes "walk f r b s cs = Inr (b', q)" and "f q = Some Dir" and "f p = None"
  shows "walk (f(p := Some Dir)) r b s cs = Inr (b', q)"
  using assms
proof (induction f r b s cs rule: walk.induct)
  case (1 f r b cur)
  then show ?case by simp
next
  case (2 f r b cur c cs)
  from "2.prems"(1) have d: "f cur = Some Dir"
    by (simp split: option.splits entry.splits)
  with "2.prems"(3) have ne: "cur \<noteq> p" by auto
  show ?case
  proof (cases "c = []")
    case True
    with 2 d ne show ?thesis by simp
  next
    case c: False
    from "2.prems"(1) d c have s: "r Search cur = None"
      by (simp split: option.splits)
    show ?thesis
    proof (cases "c = ''.'' \<or> c = ''..''")
      case True
      with 2 d ne c s show ?thesis by auto
    next
      case n: False
      from "2.prems"(1) d c s n have l: "\<not> NAME_MAX < length c"
        by (simp split: if_splits)
      have k: "cur @ [c] \<noteq> p"
      proof
        assume e: "cur @ [c] = p"
        with "2.prems"(3) have fn: "f (cur @ [c]) = None" by simp
        with "2.prems"(1) d c s n l have w: "walk f r b (cur @ [c]) cs = Inr (b', q)"
          by simp
        show False
        proof (cases cs)
          case Nil
          with w e "2.prems"(2,3) show False by simp
        next
          case (Cons x xs)
          with w fn show False by simp
        qed
      qed
      show ?thesis
      proof (cases "f (cur @ [c])")
        case None
        with 2 d ne c s n l k show ?thesis by simp
      next
        case (Some e)
        show ?thesis
        proof (cases e)
          case Dir
          with Some 2 d ne c s n l k show ?thesis by simp
        next
          case (File x)
          with Some 2 d ne c s n l k show ?thesis by simp
        next
          case (Link t)
          with Some 2 d ne c s n l k show ?thesis
            by (simp split: if_splits)
        qed
      qed
    qed
  qed
qed

lemma strip_trailing_split: "\<exists>k. cs = strip_trailing cs @ replicate k []"
proof -
  let ?P = "\<lambda>c::string. c = []"
  have c: "cs = strip_trailing cs @ rev (takeWhile ?P (rev cs))"
    unfolding strip_trailing_def
    by (metis rev_append rev_rev_ident takeWhile_dropWhile_id)
  have "replicate (length (rev (takeWhile ?P (rev cs)))) [] = rev (takeWhile ?P (rev cs))"
    by (rule replicate_length_same) (auto dest: set_takeWhileD)
  with c show ?thesis by metis
qed

lemma strip_trailing_last: "strip_trailing cs = xs \<Longrightarrow> xs \<noteq> [] \<Longrightarrow> last xs \<noteq> []"
proof -
  assume a: "strip_trailing cs = xs" and n: "xs \<noteq> []"
  let ?d = "dropWhile (\<lambda>c::string. c = []) (rev cs)"
  from a have x: "xs = rev ?d" by (simp add: strip_trailing_def)
  with n have d: "?d \<noteq> []" by simp
  then have "hd ?d \<noteq> []" using hd_dropWhile [of "\<lambda>c::string. c = []" "rev cs"] by simp
  with x d show ?thesis by (simp add: last_rev)
qed

lemma strip_trailing_id: "cs \<noteq> [] \<Longrightarrow> last cs \<noteq> [] \<Longrightarrow> strip_trailing cs = cs"
  by (cases cs rule: rev_cases) (simp_all add: strip_trailing_def)

lemma walk_empties: "f cur = Some Dir \<Longrightarrow> walk f r b cur (replicate k []) = Inr (b, cur)"
  by (induction k) simp_all

lemma walk_empties_missing:
  "f cur = None \<Longrightarrow> walk f r b cur (replicate k []) = Inr (b, cur) \<or>
     walk f r b cur (replicate k []) = Inl FileNotFoundError"
  by (cases k) simp_all

text \<open>The last step of a walk that ends at a regular file.\<close>

lemma walk_last_file:
  assumes "walk f r b1 q [x] = Inr (b, p)" and "f p = Some (File s)"
  shows "f q = Some Dir \<and> r Search q = None \<and> x \<noteq> [] \<and> x \<noteq> ''.''
         \<and> (x = ''..'' \<or> (\<not> NAME_MAX < length x \<and> f (q @ [x]) \<noteq> None))"
  using assms
  by (auto split: option.splits entry.splits if_splits)

lemma check_name_stat: "stat w name = Inr x \<Longrightarrow> check_name name = None"
  by (auto simp: stat_def split: option.splits)

lemma mkdir_on_file:
  assumes "stat w name = Inr (p, File s)"
  shows "os_mkdir name w = (Inl FileExistsError, w)"
proof -
  let ?cs = "components name"
  let ?f = "fs w" and ?r = "refusal w"
  from assms have cn: "check_name name = None" by (rule check_name_stat)
  from assms cn obtain b where wk: "walk ?f ?r MAXSYMLINKS (start w name) ?cs = Inr (b, p)"
    and fp: "?f p = Some (File s)"
    by (auto simp: stat_def split: sum.splits option.splits)
  have cs: "?cs \<noteq> []" by (simp add: components_def split_on_nonempty)
  then have "?cs = butlast ?cs @ [last ?cs]" by simp
  then have "walk ?f ?r MAXSYMLINKS (start w name) (butlast ?cs @ [last ?cs]) = Inr (b, p)"
    using wk by simp
  then obtain b1 q where
    q: "walk ?f ?r MAXSYMLINKS (start w name) (butlast ?cs) = Inr (b1, q)"
    and l: "walk ?f ?r b1 q [last ?cs] = Inr (b, p)"
    by (auto simp: walk_append simp del: walk.simps split: sum.splits)
  from walk_last_file [OF l fp] have dq: "?f q = Some Dir" and sq: "?r Search q = None"
    and nl: "last ?cs \<noteq> []" and nd: "last ?cs \<noteq> ''.''"
    and ex: "last ?cs = ''..'' \<or> (\<not> NAME_MAX < length (last ?cs) \<and> ?f (q @ [last ?cs]) \<noteq> None)"
    by simp_all
  have st: "strip_trailing ?cs = ?cs" using cs nl by (rule strip_trailing_id)
  obtain c cs' where ccs: "?cs = c # cs'" using cs by (cases ?cs) auto
  have "mkdir_place w name = Inl FileExistsError"
    using cn st q dq sq nd ex ccs by (auto simp: mkdir_place_def)
  then show ?thesis by (simp add: os_mkdir_def)
qed

text \<open>What a successful \<open>mkdir_place\<close> says of the name and of the tree.\<close>

lemma mkdir_place_Inr:
  assumes "mkdir_place w name = Inr p"
  shows "\<exists>pre n k b q.
           check_name name = None
         \<and> components name = (pre @ [n]) @ replicate k []
         \<and> walk (fs w) (refusal w) MAXSYMLINKS (start w name) pre = Inr (b, q)
         \<and> fs w q = Some Dir \<and> refusal w Search q = None
         \<and> n \<noteq> [] \<and> n \<noteq> ''.'' \<and> n \<noteq> ''..'' \<and> \<not> NAME_MAX < length n
         \<and> fs w (q @ [n]) = None \<and> refusal w Write q = None \<and> p = q @ [n]"
proof -
  let ?cs = "strip_trailing (components name)"
  from assms have cn: "check_name name = None"
    by (auto simp: mkdir_place_def split: option.splits)
  from assms cn have ne: "?cs \<noteq> []"
    by (auto simp: mkdir_place_def split: list.splits)
  then have bl: "?cs = butlast ?cs @ [last ?cs]" by simp
  from ne have nl: "last ?cs \<noteq> []" by (rule strip_trailing_last [OF refl])
  obtain k where k: "components name = ?cs @ replicate k []"
    using strip_trailing_split by blast
  obtain c cs' where ccs: "?cs = c # cs'" using ne by (cases ?cs) auto
  from assms cn ccs obtain b q where
    q: "walk (fs w) (refusal w) MAXSYMLINKS (start w name) (butlast ?cs) = Inr (b, q)"
    and rest: "fs w q = Some Dir" "refusal w Search q = None" "last ?cs \<noteq> ''.''"
      "last ?cs \<noteq> ''..''" "\<not> NAME_MAX < length (last ?cs)" "fs w (q @ [last ?cs]) = None"
      "refusal w Write q = None" "p = q @ [last ?cs]"
    by (auto simp: mkdir_place_def split: sum.splits option.splits entry.splits if_splits)
  from k bl have "components name = (butlast ?cs @ [last ?cs]) @ replicate k []" by simp
  with cn q rest nl show ?thesis by blast
qed

lemma fresh_stat:
  assumes "mkdir_place w name = Inr p"
  shows "stat w name = Inl FileNotFoundError"
proof -
  from mkdir_place_Inr [OF assms] obtain pre n k b q where
    cn: "check_name name = None"
    and cs: "components name = (pre @ [n]) @ replicate k []"
    and wk: "walk (fs w) (refusal w) MAXSYMLINKS (start w name) pre = Inr (b, q)"
    and q: "fs w q = Some Dir" "refusal w Search q = None"
    and n: "n \<noteq> []" "n \<noteq> ''.''" "n \<noteq> ''..''" "\<not> NAME_MAX < length n"
    and f: "fs w (q @ [n]) = None" and p: "p = q @ [n]"
    by blast
  have "walk (fs w) (refusal w) MAXSYMLINKS (start w name) (components name)
          = walk (fs w) (refusal w) b (q @ [n]) (replicate k [])"
    using wk q n f by (simp add: cs walk_append del: append_assoc)
  moreover from f walk_empties_missing [where f = "fs w" and cur = "q @ [n]" and r = "refusal w"
      and b = b and k = k]
  have "walk (fs w) (refusal w) b (q @ [n]) (replicate k []) = Inr (b, q @ [n])
        \<or> walk (fs w) (refusal w) b (q @ [n]) (replicate k []) = Inl FileNotFoundError"
    by blast
  ultimately show ?thesis using cn f by (auto simp: stat_def)
qed

lemma stat_after_mkdir:
  assumes "mkdir_place w name = Inr p"
  shows "stat (w\<lparr>fs := (fs w)(p := Some Dir)\<rparr>) name = Inr (p, Dir)"
proof -
  from mkdir_place_Inr [OF assms] obtain pre n k b q where
    cn: "check_name name = None"
    and cs: "components name = (pre @ [n]) @ replicate k []"
    and wk: "walk (fs w) (refusal w) MAXSYMLINKS (start w name) pre = Inr (b, q)"
    and q: "fs w q = Some Dir" "refusal w Search q = None"
    and n: "n \<noteq> []" "n \<noteq> ''.''" "n \<noteq> ''..''" "\<not> NAME_MAX < length n"
    and f: "fs w (q @ [n]) = None" and p: "p = q @ [n]"
    by blast
  let ?f = "(fs w)(p := Some Dir)"
  from f p have fp: "fs w p = None" by simp
  have w1: "walk ?f (refusal w) MAXSYMLINKS (start w name) pre = Inr (b, q)"
    by (rule walk_update [OF wk q(1) fp])
  from q(1) fp have qp: "q \<noteq> p" by auto
  have e: "walk ?f (refusal w) b p (replicate k []) = Inr (b, p)"
    by (rule walk_empties) simp
  have "walk ?f (refusal w) MAXSYMLINKS (start w name) (components name) = Inr (b, p)"
    using w1 q n qp e by (simp add: cs walk_append p del: append_assoc)
  then show ?thesis using cn by (simp add: stat_def start_def)
qed

subsection \<open>The forwarding methods of \<^verbatim>\<open>GenericRipper\<close>\<close>

text \<open>
  A forwarding method passes its arguments on unchanged and leaves the world as the
  parent's method left it, but what it returns on success is \<^verbatim>\<open>None\<close>, whatever the
  parent returned.
\<close>

lemma fetch_forwards:
  "fetch env (GenericRipper n (Some p)) url tree w =
     (case fetch env p url tree w of (Inl e, w') \<Rightarrow> (Inl e, w') | (Inr v, w') \<Rightarrow> (Inr PyNone, w'))"
  by (simp add: bind_def return_def split: prod.splits sum.splits)

lemma descend_forwards:
  "descend (GenericRipper n (Some p)) name ignore_exists w =
     (case descend p name ignore_exists w of
        (Inl e, w') \<Rightarrow> (Inl e, w')
      | (Inr (v :: 't pyval), w') \<Rightarrow> (Inr (PyNone :: 't pyval), w'))"
  by (simp add: bind_def return_def split: prod.splits sum.splits)

text \<open>
  C1. For every RipperNode with a live parent, \<^verbatim>\<open>fetch(url, wantTree)\<close> forwards the call
  to \<^verbatim>\<open>parent.fetch\<close> and returns its result. The code forwards the call but has no
  \<^verbatim>\<open>return\<close>: on the sample installation the controller returns the page (or the tree),
  and a \<^verbatim>\<open>GenericRipper\<close> whose parent is that controller returns \<^verbatim>\<open>None\<close>.
\<close>

theorem generic_fetch_drops_result:
  "fst (fetch example_env (Controller (example_controller False)) ''http://example.org/''
          False example_world) = Inr (Page example_page)
   \<and> fst (fetch example_env (GenericRipper ''site'' (Some (Controller (example_controller False))))
          ''http://example.org/'' False example_world) = Inr PyNone
   \<and> fst (fetch example_env (Controller (example_controller False)) ''http://example.org/''
          True example_world) = Inr (Tree ''<p>gone</p>'')
   \<and> fst (fetch example_env (GenericRipper ''site'' (Some (Controller (example_controller False))))
          ''http://example.org/'' True example_world) = Inr PyNone"
  by (simp add: run_defs)

text \<open>
  C2. For every RipperNode with a live parent, \<^verbatim>\<open>descend(name, ignoreExists)\<close> forwards the
  call to \<^verbatim>\<open>parent.descend\<close> and returns the boolean the parent produced. The code
  forwards the call but has no \<^verbatim>\<open>return\<close>: where the controller returns \<^verbatim>\<open>True\<close> (a new
  directory) or \<^verbatim>\<open>False\<close> (an existing one, skipped), the \<^verbatim>\<open>GenericRipper\<close> above it
  returns \<^verbatim>\<open>None\<close>.
\<close>

theorem generic_descend_drops_result:
  "fst (descend (Controller (example_controller False)) ''new'' False example_world)
     = Inr (PyBool True :: string pyval)
   \<and> fst (descend (GenericRipper ''site'' (Some (Controller (example_controller False))))
          ''new'' False example_world) = Inr (PyNone :: string pyval)
   \<and> fst (descend (Controller (example_controller False)) ''done'' False example_world)
     = Inr (PyBool False :: string pyval)
   \<and> fst (descend (GenericRipper ''site'' (Some (Controller (example_controller False))))
          ''done'' False example_world) = Inr (PyNone :: string pyval)"
  by (simp add: run_defs)

text \<open>
  C7. A RipperNode invoked without a live parent fails with a \<^verbatim>\<open>ConfigurationError\<close>. In
  the code the failure is the \<^verbatim>\<open>AttributeError\<close> of \<^verbatim>\<open>None.fetch\<close>: at a \<^verbatim>\<open>GenericRipper\<close>
  whose parent is \<^verbatim>\<open>None\<close>, \<^verbatim>\<open>fetch\<close> raises \<^verbatim>\<open>AttributeError\<close>, which is not a
  \<^verbatim>\<open>ConfigurationError\<close>.
\<close>

theorem orphan_counterexample:
  "fst (fetch example_env (GenericRipper ''orphan'' None) ''http://example.org/'' True
          example_world) = Inl AttributeError
   \<and> fst (fetch example_env (GenericRipper ''orphan'' None) ''http://example.org/'' True
          example_world) \<noteq> Inl ConfigurationError"
  by (simp add: raise_def)

text \<open>
  C7 as amended. Every \<^verbatim>\<open>GenericRipper\<close> whose parent is \<^verbatim>\<open>None\<close> fails in \<^verbatim>\<open>fetch\<close>,
  \<^verbatim>\<open>descend\<close> and \<^verbatim>\<open>ascend\<close> with an \<^verbatim>\<open>AttributeError\<close>, whatever the arguments, and
  leaves the world as it was.
\<close>

theorem orphan_raises_AttributeError:
  "fetch env (GenericRipper n None) url tree w = (Inl AttributeError, w)
   \<and> descend (GenericRipper n None) name ignore_exists w = (Inl AttributeError, w)
   \<and> ascend (GenericRipper n None) w = (Inl AttributeError, w)"
  by (simp add: raise_def)

subsection \<open>\<^verbatim>\<open>Controller.descend\<close> and \<^verbatim>\<open>Controller.ascend\<close>\<close>

text \<open>
  C3. For every name, the name of an existing directory included, and either value of
  \<^verbatim>\<open>ignoreExists\<close>: on an initialised controller whose dry-run flag is set, \<^verbatim>\<open>descend\<close>
  returns \<^verbatim>\<open>True\<close>, and the world after the call differs from the world before it in the
  log records only, so neither the directory tree nor the cursor has changed.
\<close>

theorem dryrun_descend_no_action:
  assumes "self_dryrun c" and "self_log c = Some lg"
  shows "\<exists>w'. Controller_descend c name ignore_exists w = (Inr (PyBool True), w')
           \<and> w' = w\<lparr>log_out := log_out w'\<rparr>"
  using assms
  by (simp add: Controller_descend_def is_dryrun_def log_declare_entry_def
        log_declare_return_def return_def emit_def)

theorem dryrun_descend_no_action_witness:
  "self_dryrun (example_controller True)
   \<and> self_log (example_controller True) = Some example_logger
   \<and> (\<exists>w'. Controller_descend (example_controller True) ''done'' False example_world
              = (Inr (PyBool True :: string pyval), w')
          \<and> w' = example_world\<lparr>log_out := log_out w'\<rparr>)"
  using dryrun_descend_no_action
    [of "example_controller True" example_logger "''done''" False example_world]
  by (simp add: example_controller_def)

text \<open>
  C4. The claim says that in a live run \<^verbatim>\<open>descend\<close> creates the directory, changes into
  it and returns \<^verbatim>\<open>True\<close> whenever no directory of that name exists. Where the name is
  that of a regular file no directory of that name exists, and the call raises
  \<^verbatim>\<open>FileExistsError\<close> instead, for either value of \<^verbatim>\<open>ignoreExists\<close>.
\<close>

theorem descend_onto_file_counterexample:
  "fst (os_path_isdir ''notes'' example_world) = Inr False
   \<and> fst (Controller_descend (example_controller False) ''notes'' False example_world)
       = (Inl FileExistsError :: exn + string pyval)
   \<and> fst (Controller_descend (example_controller False) ''notes'' True example_world)
       = (Inl FileExistsError :: exn + string pyval)"
  by (simp add: run_defs)

lemma descend_creates:
  assumes "\<not> self_dryrun c" and "self_log c = Some lg"
    and "mkdir_place w name = Inr p" and "refusal w Search p = None"
  shows "\<exists>w'. Controller_descend c name ignore_exists w = (Inr (PyBool True), w')
           \<and> w' = w\<lparr>fs := (fs w)(p \<mapsto> Dir), cwd := p, log_out := log_out w'\<rparr>"
proof -
  let ?w1 = "emit lg DEBUG ''Entering %s'' [Str ''descend''] w"
  let ?w2 = "emit lg DEBUG ''Creating %s'' [Str name] ?w1"
  let ?w3 = "?w2\<lparr>fs := (fs w)(p \<mapsto> Dir)\<rparr>"
  let ?w4 = "emit lg DEBUG ''Descending into %s'' [Str name] ?w3"
  let ?w5 = "emit lg DEBUG ''%s returning'' [Str ''descend''] (?w4\<lparr>cwd := p\<rparr>)"
  have s1: "stat ?w1 name = Inl FileNotFoundError"
    using fresh_stat [OF assms(3)] by simp
  have m: "mkdir_place ?w2 name = Inr p" using assms(3) by simp
  from stat_after_mkdir [OF m] have s2: "stat ?w3 name = Inr (p, Dir)" by simp
  then have s4: "stat ?w4 name = Inr (p, Dir)" by simp
  have mk: "os_mkdir name ?w2 = (Inr (), ?w3)" using m by (simp add: os_mkdir_def)
  have ch: "os_chdir name ?w4 = (Inr (), ?w4\<lparr>cwd := p\<rparr>)"
    using s4 assms(4) by (simp add: os_chdir_def)
  have d: "Controller_descend c name ignore_exists w = (Inr (PyBool True), ?w5)"
    using assms(1,2) s1 mk ch
    by (simp add: Controller_descend_def descend_into_def is_dryrun_def log_declare_entry_def
          log_declare_return_def bind_def os_path_isdir_def return_def)
  have e: "?w5 = w\<lparr>fs := (fs w)(p \<mapsto> Dir), cwd := p, log_out := log_out ?w5\<rparr>"
    by (simp add: emit_def)
  show ?thesis by (rule exI [of _ ?w5], intro conjI, rule d, rule e)
qed

lemma descend_enters:
  assumes "\<not> self_dryrun c" and "self_log c = Some lg"
    and "stat w name = Inr (p, Dir)" and "ignore_exists" and "refusal w Search p = None"
  shows "\<exists>w'. Controller_descend c name ignore_exists w = (Inr (PyBool True), w')
           \<and> w' = w\<lparr>cwd := p, log_out := log_out w'\<rparr>"
  using assms
  by (simp add: Controller_descend_def descend_into_def is_dryrun_def log_declare_entry_def
        log_declare_return_def bind_def os_path_isdir_def os_chdir_def return_def emit_def)

lemma descend_skips:
  assumes "\<not> self_dryrun c" and "self_log c = Some lg"
    and "stat w name = Inr (p, Dir)" and "\<not> ignore_exists"
  shows "\<exists>w'. Controller_descend c name ignore_exists w = (Inr (PyBool False), w')
           \<and> w' = w\<lparr>log_out := log_out w'\<rparr>"
  using assms
  by (simp add: Controller_descend_def is_dryrun_def log_declare_entry_def
        log_declare_return_def bind_def os_path_isdir_def return_def emit_def)

text \<open>
  C4 as amended. On an initialised controller in a live run. If nothing exists at \<open>name\<close>
  and the system lets the process create a directory there and enter it, \<^verbatim>\<open>descend\<close>
  creates the directory, makes it the current one and returns \<^verbatim>\<open>True\<close>: that is the
  case when \<open>mkdir_place\<close> gives the place \<open>p\<close> (the name has no NUL byte and no
  component of more than 255 bytes; the directory that is to hold the new one exists and
  grants search and write; nothing there has the name's last component) and a directory
  created at \<open>p\<close> grants the search. It holds for a name of any form: \<^verbatim>\<open>new\<close>, \<^verbatim>\<open>new/\<close>,
  \<^verbatim>\<open>done/sub\<close>. If \<open>name\<close> leads to a directory \<open>p\<close> that grants the search and
  \<^verbatim>\<open>ignoreExists\<close> is true, it makes \<open>p\<close> the current directory, changes nothing in the
  tree and returns \<^verbatim>\<open>True\<close>. If \<open>name\<close> leads to a directory and \<^verbatim>\<open>ignoreExists\<close> is
  false, it returns \<^verbatim>\<open>False\<close> and tree and cursor are as before. In each case nothing
  else changes but the log.
\<close>

theorem live_descend_cases:
  assumes "\<not> self_dryrun c" and "self_log c = Some lg"
  shows "(mkdir_place w name = Inr p \<and> refusal w Search p = None \<longrightarrow>
           (\<exists>w'. Controller_descend c name ignore_exists w = (Inr (PyBool True), w')
              \<and> w' = w\<lparr>fs := (fs w)(p \<mapsto> Dir), cwd := p, log_out := log_out w'\<rparr>))
       \<and> (stat w name = Inr (p, Dir) \<and> ignore_exists \<and> refusal w Search p = None \<longrightarrow>
           (\<exists>w'. Controller_descend c name ignore_exists w = (Inr (PyBool True), w')
              \<and> w' = w\<lparr>cwd := p, log_out := log_out w'\<rparr>))
       \<and> (stat w name = Inr (p, Dir) \<and> \<not> ignore_exists \<longrightarrow>
           (\<exists>w'. Controller_descend c name ignore_exists w = (Inr (PyBool False), w')
              \<and> w' = w\<lparr>log_out := log_out w'\<rparr>))"
proof (intro conjI impI)
  assume h: "mkdir_place w name = Inr p \<and> refusal w Search p = None"
  show "\<exists>w'. Controller_descend c name ignore_exists w = (Inr (PyBool True), w')
              \<and> w' = w\<lparr>fs := (fs w)(p \<mapsto> Dir), cwd := p, log_out := log_out w'\<rparr>"
    by (rule descend_creates [OF assms h [THEN conjunct1] h [THEN conjunct2]])
next
  assume h: "stat w name = Inr (p, Dir) \<and> ignore_exists \<and> refusal w Search p = None"
  show "\<exists>w'. Controller_descend c name ignore_exists w = (Inr (PyBool True), w')
              \<and> w' = w\<lparr>cwd := p, log_out := log_out w'\<rparr>"
    by (rule descend_enters [OF assms h [THEN conjunct1] h [THEN conjunct2, THEN conjunct1]
          h [THEN conjunct2, THEN conjunct2]])
next
  assume h: "stat w name = Inr (p, Dir) \<and> \<not> ignore_exists"
  show "\<exists>w'. Controller_descend c name ignore_exists w = (Inr (PyBool False), w')
              \<and> w' = w\<lparr>log_out := log_out w'\<rparr>"
    by (rule descend_skips [OF assms h [THEN conjunct1] h [THEN conjunct2]])
qed

theorem live_descend_cases_witness:
  "\<not> self_dryrun (example_controller False)
   \<and> self_log (example_controller False) = Some example_logger
   \<and> mkdir_place example_world ''new'' = Inr [''srv'', ''rip'', ''new'']
   \<and> refusal example_world Search [''srv'', ''rip'', ''new''] = None
   \<and> (\<exists>w'. Controller_descend (example_controller False) ''new'' False example_world
              = (Inr (PyBool True :: string pyval), w')
          \<and> w' = example_world\<lparr>fs := (fs example_world)([''srv'', ''rip'', ''new''] \<mapsto> Dir),
                                cwd := [''srv'', ''rip'', ''new''], log_out := log_out w'\<rparr>)
   \<and> mkdir_place example_world ''new/'' = Inr [''srv'', ''rip'', ''new'']
   \<and> (\<exists>w'. Controller_descend (example_controller False) ''new/'' False example_world
              = (Inr (PyBool True :: string pyval), w')
          \<and> w' = example_world\<lparr>fs := (fs example_world)([''srv'', ''rip'', ''new''] \<mapsto> Dir),
                                cwd := [''srv'', ''rip'', ''new''], log_out := log_out w'\<rparr>)
   \<and> mkdir_place example_world ''done/sub'' = Inr [''srv'', ''rip'', ''done'', ''sub'']
   \<and> refusal example_world Search [''srv'', ''rip'', ''done'', ''sub''] = None
   \<and> (\<exists>w'. Controller_descend (example_controller False) ''done/sub'' True example_world
              = (Inr (PyBool True :: string pyval), w')
          \<and> w' = example_world\<lparr>fs := (fs example_world)
                                       ([''srv'', ''rip'', ''done'', ''sub''] \<mapsto> Dir),
                                cwd := [''srv'', ''rip'', ''done'', ''sub''],
                                log_out := log_out w'\<rparr>)
   \<and> stat example_world ''done'' = Inr ([''srv'', ''rip'', ''done''], Dir)
   \<and> refusal example_world Search [''srv'', ''rip'', ''done''] = None
   \<and> (\<exists>w'. Controller_descend (example_controller False) ''done'' True example_world
              = (Inr (PyBool True :: string pyval), w')
          \<and> w' = example_world\<lparr>cwd := [''srv'', ''rip'', ''done''], log_out := log_out w'\<rparr>)
   \<and> (\<exists>w'. Controller_descend (example_controller False) ''done'' False example_world
              = (Inr (PyBool False :: string pyval), w')
          \<and> w' = example_world\<lparr>log_out := log_out w'\<rparr>)"
proof -
  have c: "\<not> self_dryrun (example_controller False)"
    and l: "self_log (example_controller False) = Some example_logger"
    by (simp_all add: example_controller_def)
  have m1: "mkdir_place example_world ''new'' = Inr [''srv'', ''rip'', ''new'']"
    and m2: "mkdir_place example_world ''new/'' = Inr [''srv'', ''rip'', ''new'']"
    and m3: "mkdir_place example_world ''done/sub'' = Inr [''srv'', ''rip'', ''done'', ''sub'']"
    by (simp_all add: run_defs)
  have r1: "refusal example_world Search [''srv'', ''rip'', ''new''] = None"
    and r3: "refusal example_world Search [''srv'', ''rip'', ''done'', ''sub''] = None"
    and r4: "refusal example_world Search [''srv'', ''rip'', ''done''] = None"
    by (simp_all add: example_world_def)
  have s: "stat example_world ''done'' = Inr ([''srv'', ''rip'', ''done''], Dir)"
    by (simp add: run_defs)
  note t = live_descend_cases [OF c l]
  have 1: "\<exists>w'. Controller_descend (example_controller False) ''new'' False example_world
              = (Inr (PyBool True :: string pyval), w')
          \<and> w' = example_world\<lparr>fs := (fs example_world)([''srv'', ''rip'', ''new''] \<mapsto> Dir),
                                cwd := [''srv'', ''rip'', ''new''], log_out := log_out w'\<rparr>"
    by (rule t [THEN conjunct1, THEN mp, OF conjI [OF m1 r1]])
  have 2: "\<exists>w'. Controller_descend (example_controller False) ''new/'' False example_world
              = (Inr (PyBool True :: string pyval), w')
          \<and> w' = example_world\<lparr>fs := (fs example_world)([''srv'', ''rip'', ''new''] \<mapsto> Dir),
                                cwd := [''srv'', ''rip'', ''new''], log_out := log_out w'\<rparr>"
    by (rule t [THEN conjunct1, THEN mp, OF conjI [OF m2 r1]])
  have 3: "\<exists>w'. Controller_descend (example_controller False) ''done/sub'' True example_world
              = (Inr (PyBool True :: string pyval), w')
          \<and> w' = example_world\<lparr>fs := (fs example_world)
                                       ([''srv'', ''rip'', ''done'', ''sub''] \<mapsto> Dir),
                                cwd := [''srv'', ''rip'', ''done'', ''sub''],
                                log_out := log_out w'\<rparr>"
    by (rule t [THEN conjunct1, THEN mp, OF conjI [OF m3 r3]])
  have 4: "\<exists>w'. Controller_descend (example_controller False) ''done'' True example_world
              = (Inr (PyBool True :: string pyval), w')
          \<and> w' = example_world\<lparr>cwd := [''srv'', ''rip'', ''done''], log_out := log_out w'\<rparr>"
    by (rule t [THEN conjunct2, THEN conjunct1, THEN mp, OF conjI [OF s conjI [OF TrueI r4]]])
  have f: "\<not> False" by simp
  have 5: "\<exists>w'. Controller_descend (example_controller False) ''done'' False example_world
              = (Inr (PyBool False :: string pyval), w')
          \<and> w' = example_world\<lparr>log_out := log_out w'\<rparr>"
    by (rule t [THEN conjunct2, THEN conjunct2, THEN mp, OF conjI [OF s f]])
  show ?thesis
    by (intro conjI) (rule c l m1 r1 1 m2 2 m3 r3 3 s r4 4 5)+
qed

text \<open>
  C10. In a live run on an initialised controller, when \<open>name\<close> leads to an entry that is
  not a directory (a regular file), \<^verbatim>\<open>descend\<close> does not return \<^verbatim>\<open>False\<close>, for either
  value of \<^verbatim>\<open>ignoreExists\<close>: \<^verbatim>\<open>os.path.isdir\<close> is false, so the method goes on to
  \<^verbatim>\<open>os.mkdir\<close>, which raises \<^verbatim>\<open>FileExistsError\<close>, an \<^verbatim>\<open>OSError\<close>; tree and cursor are as
  before.
\<close>

theorem descend_on_file_raises:
  assumes "\<not> self_dryrun c" and "self_log c = Some lg" and "stat w name = Inr (p, File s)"
  shows "\<exists>e w'. Controller_descend c name ignore_exists w = (Inl e, w')
           \<and> e = FileExistsError \<and> is_OSError e \<and> w' = w\<lparr>log_out := log_out w'\<rparr>"
proof -
  let ?w1 = "emit lg DEBUG ''Entering %s'' [Str ''descend''] w"
  let ?w2 = "emit lg DEBUG ''Creating %s'' [Str name] ?w1"
  have "stat ?w2 name = Inr (p, File s)" using assms(3) by simp
  then have mk: "os_mkdir name ?w2 = (Inl FileExistsError, ?w2)" by (rule mkdir_on_file)
  have d: "Controller_descend c name ignore_exists w = (Inl FileExistsError, ?w2)"
    using assms mk
    by (simp add: Controller_descend_def is_dryrun_def log_declare_entry_def
          bind_def os_path_isdir_def)
  have e: "?w2 = w\<lparr>log_out := log_out ?w2\<rparr>" by (simp add: emit_def)
  show ?thesis
    by (rule exI [of _ FileExistsError], rule exI [of _ ?w2], intro conjI, rule d, simp, simp,
        rule e)
qed

theorem descend_on_file_raises_witness:
  "\<not> self_dryrun (example_controller False)
   \<and> self_log (example_controller False) = Some example_logger
   \<and> stat example_world ''notes'' = Inr ([''srv'', ''rip'', ''notes''], File ''to do'')
   \<and> (\<exists>e w'. Controller_descend (example_controller False) ''notes'' True example_world
                = (Inl e :: exn + string pyval, w')
          \<and> e = FileExistsError \<and> is_OSError e
          \<and> w' = example_world\<lparr>log_out := log_out w'\<rparr>)"
proof -
  have c: "\<not> self_dryrun (example_controller False)"
    and l: "self_log (example_controller False) = Some example_logger"
    by (simp_all add: example_controller_def)
  have s: "stat example_world ''notes'' = Inr ([''srv'', ''rip'', ''notes''], File ''to do'')"
    by (simp add: run_defs)
  from c l s descend_on_file_raises [OF c l s, of True] show ?thesis by blast
qed

text \<open>
  C5. The claim says that \<^verbatim>\<open>ascend\<close> after a successful \<^verbatim>\<open>descend\<close> of a live run takes
  the cursor back to where it was before the \<^verbatim>\<open>descend\<close>. \<^verbatim>\<open>ascend\<close> is
  \<^verbatim>\<open>os.chdir('..')\<close> whatever the \<^verbatim>\<open>descend\<close> was: after the successful
  \<^verbatim>\<open>descend('.', ignore_exists=True)\<close>, which leaves the cursor at \<^verbatim>\<open>/srv/rip\<close>, it moves
  the cursor to \<^verbatim>\<open>/srv\<close>.
\<close>

theorem ascend_after_dot_counterexample:
  "fst (Controller_descend (example_controller False) ''.'' True example_world)
       = (Inr (PyBool True) :: exn + string pyval)
   \<and> cwd example_world = [''srv'', ''rip'']
   \<and> cwd (snd (Controller_ascend (example_controller False)
             (snd (Controller_descend (example_controller False) ''.'' True example_world
                    :: (exn + string pyval) \<times> nat world))
             :: (exn + string pyval) \<times> nat world)) = [''srv'']"
  by (simp add: run_defs)

lemma check_name_dotdot: "check_name ''..'' = None"
  by (simp add: check_name_def PATH_MAX_def)

lemma stat_dotdot:
  "stat w ''..'' =
     (case fs w (cwd w) of
        None \<Rightarrow> Inl FileNotFoundError
      | Some (File _) \<Rightarrow> Inl NotADirectoryError
      | Some (Link _) \<Rightarrow> Inl NotADirectoryError
      | Some Dir \<Rightarrow>
          (case refusal w Search (cwd w) of
             Some e \<Rightarrow> Inl e
           | None \<Rightarrow>
              (case fs w (butlast (cwd w)) of
                 None \<Rightarrow> Inl FileNotFoundError
               | Some e \<Rightarrow> Inr (butlast (cwd w), e))))"
  by (simp add: stat_def check_name_dotdot start_def origin_def components_def
        split: option.splits entry.splits)

lemma chdir_up:
  assumes "fs w (cwd w) = Some Dir" and "refusal w Search (cwd w) = None"
    and "fs w (butlast (cwd w)) = Some Dir" and "refusal w Search (butlast (cwd w)) = None"
  shows "os_chdir ''..'' w = (Inr (), w\<lparr>cwd := butlast (cwd w)\<rparr>)"
  using assms by (simp add: os_chdir_def stat_dotdot)

lemma chdir_up_only:
  assumes "os_chdir ''..'' w = (Inr (), w')"
  shows "w' = w\<lparr>cwd := butlast (cwd w)\<rparr>"
  using assms
  by (auto simp: os_chdir_def stat_dotdot split: option.splits entry.splits)

lemma ascend_moves_up:
  assumes "\<not> self_dryrun c" and "self_log c = Some lg"
    and "Controller_ascend c w1 = (Inr PyNone, w2)"
  shows "w2 = w1\<lparr>cwd := butlast (cwd w1), log_out := log_out w2\<rparr>"
proof -
  let ?v = "emit lg DEBUG ''Ascending from directory'' []
              (emit lg DEBUG ''Entering %s'' [Str ''ascend''] w1)"
  from assms obtain v' where ch: "os_chdir ''..'' ?v = (Inr (), v')" and w2: "w2 = v'"
    by (auto simp: Controller_ascend_def is_dryrun_def log_declare_entry_def bind_def
          return_def split: prod.splits sum.splits)
  from chdir_up_only [OF ch] w2 have "w2 = ?v\<lparr>cwd := butlast (cwd ?v)\<rparr>" by simp
  then show ?thesis by (simp add: emit_def)
qed

lemma descend_into_True:
  assumes "self_log c = Some lg"
    and "descend_into c name v = (Inr (PyBool True :: 't pyval), w1)"
  shows "stat v name = Inr (cwd w1, Dir) \<and> refusal v Search (cwd w1) = None
         \<and> fs w1 = fs v \<and> refusal w1 = refusal v"
  using assms
  by (auto simp: descend_into_def log_declare_return_def bind_def os_chdir_def return_def
      split: sum.splits prod.splits entry.splits option.splits)

lemma live_descend_True:
  assumes "\<not> self_dryrun c" and "self_log c = Some lg"
    and "Controller_descend c name ignore_exists (w :: 'n world)
           = (Inr (PyBool True :: 't pyval), w1)"
  shows "\<exists>v :: 'n world. stat v name = Inr (cwd w1, Dir) \<and> refusal w Search (cwd w1) = None
           \<and> cwd v = cwd w \<and> refusal v = refusal w \<and> fs w1 = fs v \<and> refusal w1 = refusal w
           \<and> (fs v = fs w \<or> (\<exists>p. fs w p = None \<and> fs v = (fs w)(p \<mapsto> Dir)))"
proof -
  let ?w1 = "emit lg DEBUG ''Entering %s'' [Str ''descend''] w"
  let ?w2 = "emit lg DEBUG ''Creating %s'' [Str name] ?w1"
  show ?thesis
  proof (cases "fst (os_path_isdir name ?w1) = Inr True")
    case True
    then have i: "os_path_isdir name ?w1 = (Inr True, ?w1)"
      by (auto simp: os_path_isdir_def split: sum.splits prod.splits entry.splits)
    from assms i have "descend_into c name ?w1 = (Inr (PyBool True :: 't pyval), w1)"
      by (auto simp: Controller_descend_def is_dryrun_def log_declare_entry_def
            log_declare_return_def bind_def return_def split: if_splits)
    from descend_into_True [OF assms(2) this] show ?thesis
      by - (rule exI [of _ ?w1], simp)
  next
    case False
    then have i: "os_path_isdir name ?w1 = (Inr False, ?w1)"
      by (auto simp: os_path_isdir_def split: sum.splits prod.splits entry.splits)
    from assms i obtain v where mk: "os_mkdir name ?w2 = (Inr (), v)"
      and di: "descend_into c name v = (Inr (PyBool True :: 't pyval), w1)"
      by (auto simp: Controller_descend_def is_dryrun_def log_declare_entry_def
            bind_def split: sum.splits prod.splits)
    from mk obtain p where m: "mkdir_place w name = Inr p"
      and v: "v = ?w2\<lparr>fs := (fs w)(p \<mapsto> Dir)\<rparr>"
      by (auto simp: os_mkdir_def split: sum.splits)
    from mkdir_place_Inr [OF m] have fp: "fs w p = None" by auto
    from descend_into_True [OF assms(2) di] v fp show ?thesis
      by - (rule exI [of _ v], auto)
  qed
qed

lemma components_hd: "components name = h # t \<Longrightarrow> h \<noteq> [] \<Longrightarrow> origin cur name = cur"
  by (cases name) (auto simp: components_def origin_def split: if_splits list.splits)

lemma walk_empties_result: "walk f r b cur (replicate k []) = Inr (b', p) \<Longrightarrow> p = cur"
  by (induction k) (auto split: option.splits entry.splits)

lemma stat_entry_name:
  assumes "entry_name name n" and "stat v name = Inr (p, e)"
    and "\<not> is_link (fs v (cwd v @ [n]))"
  shows "p = cwd v @ [n] \<and> fs v (cwd v) = Some Dir \<and> refusal v Search (cwd v) = None"
proof -
  from assms(1) have st: "strip_trailing (components name) = [n]"
    and n: "n \<noteq> ''.''" "n \<noteq> ''..''" by (simp_all add: entry_name_def)
  from strip_trailing_last [OF st] have ne: "n \<noteq> []" by simp
  obtain k where cs: "components name = [n] @ replicate k []"
    using strip_trailing_split [of "components name"] st by auto
  then have "components name = n # replicate k []" by simp
  from components_hd [OF this ne] have o: "start v name = cwd v" by (simp add: start_def)
  from assms(2) obtain b where
    wk: "walk (fs v) (refusal v) MAXSYMLINKS (cwd v) (n # replicate k []) = Inr (b, p)"
    by (auto simp: stat_def o cs simp del: walk.simps split: option.splits sum.splits)
  from wk ne have d: "fs v (cwd v) = Some Dir" and s: "refusal v Search (cwd v) = None"
    by (auto split: option.splits entry.splits)
  from wk ne n d s assms(3)
  have "walk (fs v) (refusal v) MAXSYMLINKS (cwd v @ [n]) (replicate k []) = Inr (b, p)"
    by (auto split: option.splits entry.splits if_splits)
  from walk_empties_result [OF this] d s show ?thesis by simp
qed

text \<open>
  For the name of an entry of the current directory, \<open>mkdir_place\<close> says what one
  expects: the current directory grants search and write, and nothing of that name is
  there.
\<close>

lemma mkdir_place_entry:
  assumes "entry_name name n" and "check_name name = None"
    and "fs w (cwd w) = Some Dir" and "refusal w Search (cwd w) = None"
    and "\<not> NAME_MAX < length n" and "fs w (cwd w @ [n]) = None"
    and "refusal w Write (cwd w) = None"
  shows "mkdir_place w name = Inr (cwd w @ [n])"
proof -
  from assms(1) have st: "strip_trailing (components name) = [n]"
    and n: "n \<noteq> ''.''" "n \<noteq> ''..''" by (simp_all add: entry_name_def)
  from strip_trailing_last [OF st] have ne: "n \<noteq> []" by simp
  obtain k where "components name = [n] @ replicate k []"
    using strip_trailing_split [of "components name"] st by auto
  then have "components name = n # replicate k []" by simp
  from components_hd [OF this ne] have o: "start w name = cwd w" by (simp add: start_def)
  show ?thesis using assms(2-7) st n o by (simp add: mkdir_place_def)
qed

lemma live_descend_entry:
  assumes "\<not> self_dryrun c" and "self_log c = Some lg"
    and "Controller_descend c name ignore_exists (w :: 'n world) = (Inr (PyBool True), w1)"
    and "entry_name name n" and "\<not> is_link (fs w (cwd w @ [n]))"
  shows "cwd w1 = cwd w @ [n] \<and> fs w1 (cwd w1) = Some Dir \<and> fs w1 (cwd w) = Some Dir
         \<and> refusal w1 Search (cwd w1) = None \<and> refusal w1 Search (cwd w) = None"
proof -
  from live_descend_True [OF assms(1,2,3)] obtain v :: "'n world" where
    s: "stat v name = Inr (cwd w1, Dir)" and r: "refusal w Search (cwd w1) = None"
    and c: "cwd v = cwd w" and rv: "refusal v = refusal w" and f1: "fs w1 = fs v"
    and r1: "refusal w1 = refusal w"
    and f: "fs v = fs w \<or> (\<exists>p. fs w p = None \<and> fs v = (fs w)(p \<mapsto> Dir))"
    by blast
  from f assms(5) have nl: "\<not> is_link (fs v (cwd v @ [n]))"
    by (auto simp: c split: if_splits)
  from stat_entry_name [OF assms(4) s nl]
  have p: "cwd w1 = cwd w @ [n]" and d: "fs v (cwd w) = Some Dir"
    and sr: "refusal w Search (cwd w) = None"
    by (simp_all add: c rv)
  from s have "fs v (cwd w1) = Some Dir"
    by (auto simp: stat_def split: option.splits sum.splits)
  with p d sr r f1 r1 show ?thesis by simp
qed

text \<open>
  Through a symbolic link the cursor does not come back either: \<^verbatim>\<open>link\<close> leads to
  \<^verbatim>\<open>/srv/elsewhere\<close>, and \<^verbatim>\<open>ascend\<close> goes from there to \<^verbatim>\<open>/srv\<close>, not to \<^verbatim>\<open>/srv/rip\<close>.
\<close>

lemma ascend_after_link:
  "fst (Controller_descend (example_controller False) ''link'' True example_world)
       = (Inr (PyBool True) :: exn + string pyval)
   \<and> cwd (snd (Controller_descend (example_controller False) ''link'' True example_world
               :: (exn + string pyval) \<times> nat world)) = [''srv'', ''elsewhere'']
   \<and> cwd (snd (Controller_ascend (example_controller False)
             (snd (Controller_descend (example_controller False) ''link'' True example_world
                    :: (exn + string pyval) \<times> nat world))
             :: (exn + string pyval) \<times> nat world)) = [''srv'']"
  by (simp add: run_defs)

text \<open>
  C5 as amended. On an initialised controller. In a live run, whenever \<^verbatim>\<open>ascend\<close>
  returns it has moved the cursor to the parent of the current directory (one level up;
  the root is its own parent) and changed nothing else but the log. After a \<^verbatim>\<open>descend\<close>
  of a live run that returned \<^verbatim>\<open>True\<close> on a name that is a single path component other
  than \<^verbatim>\<open>.\<close> and \<^verbatim>\<open>..\<close>, with or without trailing slashes, and that is not a symbolic
  link, the cursor is one level below where it was, and \<^verbatim>\<open>ascend\<close> returns and takes it
  back to where it was before the \<^verbatim>\<open>descend\<close>. In a dry run \<^verbatim>\<open>ascend\<close> returns and
  changes nothing but the log, in any world.
\<close>

theorem ascend_restores_cursor:
  assumes "self_log c = Some lg"
  shows "(\<not> self_dryrun c \<and> Controller_ascend c w1 = (Inr PyNone, w2) \<longrightarrow>
          w2 = w1\<lparr>cwd := butlast (cwd w1), log_out := log_out w2\<rparr>)
       \<and> (\<not> self_dryrun c
            \<and> Controller_descend c name ignore_exists w = (Inr (PyBool True), w1)
            \<and> entry_name name n \<and> \<not> is_link (fs w (cwd w @ [n])) \<longrightarrow>
          cwd w1 = cwd w @ [n]
            \<and> (\<exists>w3. Controller_ascend c w1 = (Inr PyNone, w3)
                  \<and> w3 = w1\<lparr>cwd := cwd w, log_out := log_out w3\<rparr>))
       \<and> (self_dryrun c \<longrightarrow>
          (\<exists>w3. Controller_ascend c w = (Inr PyNone, w3) \<and> w3 = w\<lparr>log_out := log_out w3\<rparr>))"
proof (intro conjI impI)
  assume h: "\<not> self_dryrun c \<and> Controller_ascend c w1 = (Inr PyNone, w2)"
  show "w2 = w1\<lparr>cwd := butlast (cwd w1), log_out := log_out w2\<rparr>"
    by (rule ascend_moves_up [OF h [THEN conjunct1] assms h [THEN conjunct2]])
next
  assume h: "\<not> self_dryrun c
            \<and> Controller_descend c name ignore_exists w = (Inr (PyBool True), w1)
            \<and> entry_name name n \<and> \<not> is_link (fs w (cwd w @ [n]))"
  note nd = h [THEN conjunct1]
  note de = h [THEN conjunct2, THEN conjunct1]
  note en = h [THEN conjunct2, THEN conjunct2, THEN conjunct1]
  note nl = h [THEN conjunct2, THEN conjunct2, THEN conjunct2]
  note le = live_descend_entry [OF nd assms de en nl]
  note cw = le [THEN conjunct1]
  note d1 = le [THEN conjunct2, THEN conjunct1]
  note d0 = le [THEN conjunct2, THEN conjunct2, THEN conjunct1]
  note s1 = le [THEN conjunct2, THEN conjunct2, THEN conjunct2, THEN conjunct1]
  note s0 = le [THEN conjunct2, THEN conjunct2, THEN conjunct2, THEN conjunct2]
  show "cwd w1 = cwd w @ [n]" by (rule cw)
  let ?v = "emit lg DEBUG ''Ascending from directory'' []
              (emit lg DEBUG ''Entering %s'' [Str ''ascend''] w1)"
  have "os_chdir ''..'' ?v = (Inr (), ?v\<lparr>cwd := butlast (cwd ?v)\<rparr>)"
    by (rule chdir_up) (simp_all add: cw d0 d1 [unfolded cw] s0 s1 [unfolded cw])
  then have a: "Controller_ascend c w1 = (Inr PyNone, ?v\<lparr>cwd := cwd w\<rparr>)"
    using nd assms
    by (simp add: Controller_ascend_def is_dryrun_def log_declare_entry_def bind_def
          return_def cw)
  have e: "?v\<lparr>cwd := cwd w\<rparr> = w1\<lparr>cwd := cwd w, log_out := log_out (?v\<lparr>cwd := cwd w\<rparr>)\<rparr>"
    by (simp add: emit_def)
  show "\<exists>w3. Controller_ascend c w1 = (Inr PyNone, w3)
                  \<and> w3 = w1\<lparr>cwd := cwd w, log_out := log_out w3\<rparr>"
    by (rule exI [of _ "?v\<lparr>cwd := cwd w\<rparr>"], intro conjI, rule a, rule e)
next
  assume "self_dryrun c"
  then show "\<exists>w3. Controller_ascend c w = (Inr PyNone, w3) \<and> w3 = w\<lparr>log_out := log_out w3\<rparr>"
    using assms
    by (simp add: Controller_ascend_def is_dryrun_def log_declare_entry_def return_def emit_def)
qed

theorem ascend_restores_cursor_witness:
  "self_log (example_controller False) = Some example_logger
   \<and> \<not> self_dryrun (example_controller False)
   \<and> fst (Controller_ascend (example_controller False) example_world)
       = (Inr PyNone :: exn + string pyval)
   \<and> cwd example_world = [''srv'', ''rip'']
   \<and> snd (Controller_ascend (example_controller False) example_world
            :: (exn + string pyval) \<times> nat world)
       = example_world\<lparr>cwd := butlast (cwd example_world),
                        log_out := log_out (snd (Controller_ascend (example_controller False)
                           example_world :: (exn + string pyval) \<times> nat world))\<rparr>
   \<and> fst (Controller_descend (example_controller False) ''new/'' False example_world)
       = (Inr (PyBool True) :: exn + string pyval)
   \<and> entry_name ''new/'' ''new''
   \<and> \<not> is_link (fs example_world (cwd example_world @ [''new'']))
   \<and> cwd (snd (Controller_descend (example_controller False) ''new/'' False example_world
               :: (exn + string pyval) \<times> nat world)) = [''srv'', ''rip'', ''new'']
   \<and> (\<exists>w3. Controller_ascend (example_controller False)
               (snd (Controller_descend (example_controller False) ''new/'' False example_world
                      :: (exn + string pyval) \<times> nat world))
              = (Inr (PyNone :: string pyval), w3)
          \<and> w3 = (snd (Controller_descend (example_controller False) ''new/'' False
                          example_world :: (exn + string pyval) \<times> nat world))
                    \<lparr>cwd := cwd example_world, log_out := log_out w3\<rparr>)
   \<and> self_log (example_controller True) = Some example_logger
   \<and> self_dryrun (example_controller True)
   \<and> (\<exists>w3. Controller_ascend (example_controller True) example_world
              = (Inr (PyNone :: string pyval), w3)
          \<and> w3 = example_world\<lparr>log_out := log_out w3\<rparr>)"
proof -
  let ?r = "Controller_descend (example_controller False) ''new/'' False example_world
              :: (exn + string pyval) \<times> nat world"
  let ?a = "Controller_ascend (example_controller False) example_world
              :: (exn + string pyval) \<times> nat world"
  have l: "self_log (example_controller False) = Some example_logger"
    and c: "\<not> self_dryrun (example_controller False)"
    and l': "self_log (example_controller True) = Some example_logger"
    and c': "self_dryrun (example_controller True)"
    by (simp_all add: example_controller_def)
  have cw: "cwd example_world = [''srv'', ''rip'']"
    by (simp add: example_world_def)
  have n: "entry_name ''new/'' ''new''"
    by (simp add: entry_name_def strip_trailing_def components_def)
  have k: "\<not> is_link (fs example_world (cwd example_world @ [''new'']))"
    by (simp add: example_world_def example_tree_def)
  have fa: "fst ?a = Inr PyNone" by (simp add: run_defs)
  then have ae: "?a = (Inr PyNone, snd ?a)" by (simp add: prod_eq_iff)
  have 0: "snd ?a = example_world\<lparr>cwd := butlast (cwd example_world),
                                   log_out := log_out (snd ?a)\<rparr>"
    by (rule ascend_restores_cursor [OF l, THEN conjunct1, THEN mp, OF conjI [OF c ae]])
  have f: "fst ?r = Inr (PyBool True)" by (simp add: run_defs)
  then have de: "?r = (Inr (PyBool True), snd ?r)" by (simp add: prod_eq_iff)
  note a = ascend_restores_cursor
    [OF l, THEN conjunct2, THEN conjunct1, THEN mp, OF conjI [OF c conjI [OF de conjI [OF n k]]]]
  have 1: "cwd (snd ?r) = [''srv'', ''rip'', ''new'']"
    using a [THEN conjunct1] by (simp add: cw)
  have 2: "\<exists>w3. Controller_ascend (example_controller False) (snd ?r)
                  = (Inr (PyNone :: string pyval), w3)
              \<and> w3 = (snd ?r)\<lparr>cwd := cwd example_world, log_out := log_out w3\<rparr>"
    by (rule a [THEN conjunct2])
  have 3: "\<exists>w3. Controller_ascend (example_controller True) example_world
              = (Inr (PyNone :: string pyval), w3)
          \<and> w3 = example_world\<lparr>log_out := log_out w3\<rparr>"
    by (rule ascend_restores_cursor [OF l', THEN conjunct2, THEN conjunct2, THEN mp, OF c'])
  show ?thesis
    by (intro conjI) (rule l c fa cw 0 f n k 1 2 l' c' 3)+
qed

subsection \<open>\<^verbatim>\<open>Controller.fetch\<close>\<close>

text \<open>
  C9. On an initialised controller, when the session's \<^verbatim>\<open>get\<close> returns a response,
  whatever its status code, \<^verbatim>\<open>fetch(url, tree=False)\<close> returns that very response
  object (so its body and status code are the ones received): it raises nothing and
  looks at no status code. Apart from the log, only the network has changed.
\<close>

theorem fetch_page_as_is:
  assumes "self_log c = Some lg" and "self_session c = Some s"
    and "http_get env url (net w) = (Inr page, n')"
  shows "\<exists>w'. Controller_fetch env c url False w = (Inr (Page page), w')
           \<and> w' = w\<lparr>net := n', log_out := log_out w'\<rparr>"
  using assms
  by (simp add: Controller_fetch_def log_declare_entry_def log_declare_return_def
        session_get_def bind_def return_def emit_def)

theorem fetch_page_as_is_witness:
  "self_log (example_controller False) = Some example_logger
   \<and> self_session (example_controller False) = Some 0
   \<and> http_get example_env ''http://example.org/'' (net example_world) = (Inr example_page, 1)
   \<and> status_code example_page = 404
   \<and> (\<exists>w'. Controller_fetch example_env (example_controller False) ''http://example.org/''
               False example_world = (Inr (Page example_page), w')
          \<and> w' = example_world\<lparr>net := 1, log_out := log_out w'\<rparr>)"
proof -
  have l: "self_log (example_controller False) = Some example_logger"
    and s: "self_session (example_controller False) = Some 0"
    by (simp_all add: example_controller_def)
  have g: "http_get example_env ''http://example.org/'' (net example_world)
             = (Inr example_page, 1)"
    by (simp add: example_env_def example_world_def)
  have c: "status_code example_page = 404" by (simp add: example_page_def)
  from l s g c fetch_page_as_is [OF l s g] show ?thesis by blast
qed

subsection \<open>\<^verbatim>\<open>Controller.init\<close>\<close>

text \<open>
  C8. \<^verbatim>\<open>__init_log\<close> gives the logger the level 51 for the number 0, and 51 is above
  \<^verbatim>\<open>CRITICAL\<close>, the most severe level of the logging module, so that the logger writes
  nothing at all (its own "Starting log" included: the world is unchanged); for 1 to 5
  it gives \<^verbatim>\<open>CRITICAL\<close>, \<^verbatim>\<open>ERROR\<close>, \<^verbatim>\<open>WARNING\<close>, \<^verbatim>\<open>INFO\<close> and \<^verbatim>\<open>DEBUG\<close>, each below the
  one before.
\<close>

theorem loglevel_mapping:
  "fst (Controller_init_log 0 logfile name w)
     = Inr \<lparr>lg_name = name, lg_level = 51, lg_file = logfile\<rparr>
   \<and> CRITICAL < 51 \<and> ERROR < CRITICAL \<and> WARNING < ERROR \<and> INFO < WARNING \<and> DEBUG < INFO
   \<and> snd (Controller_init_log 0 logfile name w) = w
   \<and> emit \<lparr>lg_name = name, lg_level = 51, lg_file = logfile\<rparr> CRITICAL m as w = w
   \<and> fst (Controller_init_log 1 logfile name w)
     = Inr \<lparr>lg_name = name, lg_level = CRITICAL, lg_file = logfile\<rparr>
   \<and> fst (Controller_init_log 2 logfile name w)
     = Inr \<lparr>lg_name = name, lg_level = ERROR, lg_file = logfile\<rparr>
   \<and> fst (Controller_init_log 3 logfile name w)
     = Inr \<lparr>lg_name = name, lg_level = WARNING, lg_file = logfile\<rparr>
   \<and> fst (Controller_init_log 4 logfile name w)
     = Inr \<lparr>lg_name = name, lg_level = INFO, lg_file = logfile\<rparr>
   \<and> fst (Controller_init_log 5 logfile name w)
     = Inr \<lparr>lg_name = name, lg_level = DEBUG, lg_file = logfile\<rparr>"
  by (simp add: Controller_init_log_def figure_out_loglevel_def CRITICAL_def ERROR_def
        WARNING_def INFO_def DEBUG_def emit_def return_def)


lemma py_open_emit [simp]: "fst (py_open name (emit lg lvl m as w)) = fst (py_open name w)"
  by (simp add: py_open_def split: sum.splits entry.splits prod.splits option.splits)

lemma py_open_log_out [simp]: "fst (py_open name (w\<lparr>log_out := l\<rparr>)) = fst (py_open name w)"
  by (simp add: py_open_def split: sum.splits entry.splits prod.splits option.splits)












end
